theory Spec2Isabelle
  imports Main
begin

section \<open>The background service worker of the wallet extension\<close>

text \<open>
  The source is \<^verbatim>\<open>src/background/background.ts\<close>: a message listener that dispatches RPC
  requests of web pages, keeps a registry of requests waiting for the user's decision
  (\<^verbatim>\<open>pendingRequests\<close>), a registry of suspended callers (\<^verbatim>\<open>approvalResolvers\<close>) and the
  session state (\<^verbatim>\<open>isUnlocked\<close>, \<^verbatim>\<open>sessionTimeout\<close>).

  The module-level variables are the fields of the record \<open>state\<close>. Every handler takes
  the state and returns the new state with its outcome. What the handler awaits from the
  outside (storage, the wallet manager, the browser's popup and session storage, the
  clock) is read from a record \<open>env\<close>; every call to a collaborator is appended to the
  field \<open>calls\<close>, so that "is invoked" and "is not invoked" are statements about that
  list. A handler runs as one step, from its entry to its return or to the promise it
  hands back: what it awaits answers before the next message or timer is handled.
  Timers fire as steps of their own.
\<close>

subsection \<open>Values\<close>

text \<open>
  \<^verbatim>\<open>params\<close> has the type \<^verbatim>\<open>any\<close>. The handlers read three properties of it, test one for
  truthiness and one against \<^verbatim>\<open>undefined\<close>. A property that is absent reads as
  \<^verbatim>\<open>undefined\<close>. Numbers are integers here (no \<^verbatim>\<open>NaN\<close>, no fractions).
\<close>

datatype jsval = JUndefined | JNull | JBool bool | JNum int | JStr string

fun falsy :: "jsval \<Rightarrow> bool" where
  "falsy JUndefined = True"
| "falsy JNull = True"
| "falsy (JBool b) = (\<not> b)"
| "falsy (JNum n) = (n = 0)"
| "falsy (JStr s) = (s = [])"

record params =
  to :: jsval
  amount :: jsval
  address :: jsval

definition empty_params :: params where
  "empty_params = \<lparr>to = JUndefined, amount = JUndefined, address = JUndefined\<rparr>"

text \<open>
  The enumerations \<^verbatim>\<open>RPCMethod\<close> and \<^verbatim>\<open>ErrorCode\<close> are imported from
  \<^verbatim>\<open>../shared/types\<close>; the members below are the ones the source names. A method string
  that is none of the five is \<open>OtherMethod\<close>.
\<close>

datatype RPCMethod =
  REQUEST_ACCOUNTS | GET_ACCOUNTS | GET_BALANCE | SEND_TRANSACTION | GET_NETWORK
  | OtherMethod string

datatype ErrorCode = UNAUTHORIZED | UNSUPPORTED_METHOD | USER_REJECTED | DISCONNECTED

record RPCError =
  code :: ErrorCode
  message :: string

definition createRPCError :: "ErrorCode \<Rightarrow> string \<Rightarrow> RPCError" where
  "createRPCError c m = \<lparr>code = c, message = m\<rparr>"

text \<open>
  What a handler can throw: an \<^verbatim>\<open>RPCError\<close> object, a \<^verbatim>\<open>TypeError\<close> of the language
  (reading a property of \<^verbatim>\<open>undefined\<close>), or an \<^verbatim>\<open>Error\<close> with a message (the source's own
  \<^verbatim>\<open>new Error(...)\<close>, or the rejection of an awaited browser call).
\<close>

datatype thrown = RPCErr RPCError | TypeError | JSError string

datatype val = VAccounts "string list" | VString string | VSuccess

text \<open>
  The outcome of an async handler: it throws, it returns a value, or it returns the
  promise made by \<^verbatim>\<open>waitForApproval\<close>, on which its caller stays suspended.
\<close>

datatype outcome = Throws thrown | Returns val | Pending nat

datatype settlement = Resolved val | Rejected thrown

record DAppRequest =
  request_id :: string
  origin :: string
  rpc_method :: RPCMethod
  params :: params
  timestamp :: nat

subsection \<open>The outside world\<close>

text \<open>
  The answers of the collaborators during one handler call. \<^verbatim>\<open>isOriginConnected\<close>,
  \<^verbatim>\<open>getCurrentWallet\<close> and \<^verbatim>\<open>addConnectedSite\<close> (imported from \<^verbatim>\<open>../shared/storage\<close>) and the
  wallet manager's \<^verbatim>\<open>getBalance\<close> and \<^verbatim>\<open>getNetwork\<close> answer with a value. The calls that
  may be rejected with a message are \<^verbatim>\<open>walletManager.sendTransaction\<close>, which the source
  wraps in \<^verbatim>\<open>try\<close>, and the two browser calls of \<^verbatim>\<open>openPopupWithRequest\<close>,
  \<^verbatim>\<open>chrome.storage.session.set\<close> and \<^verbatim>\<open>chrome.action.openPopup\<close>. \<^verbatim>\<open>Date.now()\<close> is read twice
  by a registration, for the id and for the timestamp.
\<close>

datatype 'a ext = Ok 'a | Fails string

record env =
  isOriginConnected :: "string \<Rightarrow> bool"
  getCurrentWallet :: "string option"
  getBalance :: "jsval \<Rightarrow> string"
  getNetwork :: string
  sendTransaction :: "params \<Rightarrow> string ext"
  storageSessionSet :: "unit ext"
  openPopup :: "unit ext"
  now_id :: nat
  now_timestamp :: nat

datatype call =
  IsOriginConnected string
  | GetCurrentWallet
  | AddConnectedSite string
  | GetBalance jsval
  | GetNetwork
  | SendTransaction params
  | StorageSessionSet string
  | OpenPopup
  | WalletLock
  | NotifyLocked

subsection \<open>State\<close>

datatype timer = LockTimer | ApprovalTimer string nat

record state =
  isUnlocked :: bool
  sessionTimeout :: "nat option"
  pendingRequests :: "string \<rightharpoonup> DAppRequest"
  approvalResolvers :: "string \<rightharpoonup> nat"
  timers :: "nat \<rightharpoonup> (timer \<times> nat)"
  nextHandle :: nat
  nextPromise :: nat
  settlements :: "(nat \<times> settlement) list"
  calls :: "call list"

text \<open>
  \<open>approvalResolvers\<close> maps a request id to the promise whose \<^verbatim>\<open>resolve\<close> and \<^verbatim>\<open>reject\<close> it
  holds; \<open>settlements\<close> lists every invocation of such a continuation, with the promise it
  belongs to. \<open>timers\<close> are the timers set and not yet fired or cleared, under the handle
  \<^verbatim>\<open>setTimeout\<close> returned, each with its delay in milliseconds.
\<close>

definition initial :: state where
  "initial = \<lparr>isUnlocked = False, sessionTimeout = None, pendingRequests = Map.empty,
     approvalResolvers = Map.empty, timers = Map.empty, nextHandle = 1, nextPromise = 0,
     settlements = [], calls = []\<rparr>"

definition called :: "call \<Rightarrow> state \<Rightarrow> state" where
  "called c s = s\<lparr>calls := calls s @ [c]\<rparr>"

definition setTimeout :: "timer \<Rightarrow> nat \<Rightarrow> state \<Rightarrow> nat \<times> state" where
  "setTimeout t d s =
     (nextHandle s, s\<lparr>timers := (timers s)(nextHandle s \<mapsto> (t, d)), nextHandle := nextHandle s + 1\<rparr>)"

definition clearTimeout :: "nat \<Rightarrow> state \<Rightarrow> state" where
  "clearTimeout h s = s\<lparr>timers := (timers s)(h := None)\<rparr>"

subsection \<open>Session\<close>

definition SESSION_TIMEOUT_MS :: nat where
  "SESSION_TIMEOUT_MS = 30 * 60 * 1000"

definition resetSessionTimeout :: "state \<Rightarrow> state" where
  "resetSessionTimeout s =
     (let s1 = (case sessionTimeout s of
                  Some h \<Rightarrow> if h \<noteq> 0 then clearTimeout h s else s
                | None \<Rightarrow> s);
          (h', s2) = setTimeout LockTimer SESSION_TIMEOUT_MS s1
      in s2\<lparr>sessionTimeout := Some h'\<rparr>)"

definition lockWallet :: "state \<Rightarrow> state" where
  "lockWallet s = called NotifyLocked (called WalletLock (s\<lparr>isUnlocked := False\<rparr>))"

subsection \<open>Request ids\<close>

text \<open>
  The ids are the template literals \<^verbatim>\<open>`connect_${Date.now()}`\<close> and \<^verbatim>\<open>`tx_${Date.now()}`\<close>:
  a prefix, then the clock reading (milliseconds, a natural number) in decimal.
\<close>

definition digit_char :: "nat \<Rightarrow> char" where
  "digit_char d = ''0123456789'' ! d"

fun decimal :: "nat \<Rightarrow> string" where
  "decimal n = (if n < 10 then [digit_char n] else decimal (n div 10) @ [digit_char (n mod 10)])"

declare decimal.simps [simp del]

definition connect_id :: "nat \<Rightarrow> string" where
  "connect_id t = ''connect_'' @ decimal t"

definition tx_id :: "nat \<Rightarrow> string" where
  "tx_id t = ''tx_'' @ decimal t"

subsection \<open>The approval waiting mechanism\<close>

definition waitForApproval :: "string \<Rightarrow> nat \<Rightarrow> state \<Rightarrow> nat \<times> state" where
  "waitForApproval requestId timeout s =
     (let p = nextPromise s;
          s1 = s\<lparr>nextPromise := p + 1, approvalResolvers := (approvalResolvers s)(requestId \<mapsto> p)\<rparr>;
          (h, s2) = setTimeout (ApprovalTimer requestId p) timeout s1
      in (p, s2))"

text \<open>
  The body of the timer set by \<^verbatim>\<open>waitForApproval\<close>. The test is on the registry entry of
  the id; the \<^verbatim>\<open>reject\<close> it calls is the one of its own promise \<open>p\<close>.
\<close>

definition approvalTimeout :: "string \<Rightarrow> nat \<Rightarrow> state \<Rightarrow> state" where
  "approvalTimeout requestId p s =
     (if approvalResolvers s requestId \<noteq> None
      then s\<lparr>approvalResolvers := (approvalResolvers s)(requestId := None),
             settlements := settlements s @
               [(p, Rejected (RPCErr (createRPCError USER_REJECTED ''Request timeout'')))]\<rparr>
      else s)"

definition resolveApproval :: "string \<Rightarrow> val \<Rightarrow> state \<Rightarrow> state" where
  "resolveApproval requestId v s =
     (case approvalResolvers s requestId of
        Some p \<Rightarrow> s\<lparr>settlements := settlements s @ [(p, Resolved v)],
                    approvalResolvers := (approvalResolvers s)(requestId := None)\<rparr>
      | None \<Rightarrow> s)"

definition rejectApproval :: "string \<Rightarrow> thrown \<Rightarrow> state \<Rightarrow> state" where
  "rejectApproval requestId e s =
     (case approvalResolvers s requestId of
        Some p \<Rightarrow> s\<lparr>settlements := settlements s @ [(p, Rejected e)],
                    approvalResolvers := (approvalResolvers s)(requestId := None)\<rparr>
      | None \<Rightarrow> s)"

subsection \<open>Handlers of RPC requests\<close>

definition openPopupWithRequest :: "env \<Rightarrow> string \<Rightarrow> state \<Rightarrow> state \<times> unit ext" where
  "openPopupWithRequest e requestId s =
     (let s1 = called (StorageSessionSet requestId) s
      in case storageSessionSet e of
           Fails m \<Rightarrow> (s1, Fails m)
         | Ok _ \<Rightarrow>
             (let s2 = called OpenPopup s1
              in case openPopup e of Fails m \<Rightarrow> (s2, Fails m) | Ok _ \<Rightarrow> (s2, Ok ())))"

definition current_accounts :: "env \<Rightarrow> string list" where
  "current_accounts e = (case getCurrentWallet e of Some a \<Rightarrow> [a] | None \<Rightarrow> [])"

definition APPROVAL_TIMEOUT_MS :: nat where
  "APPROVAL_TIMEOUT_MS = 5 * 60 * 1000"

definition handleRequestAccounts :: "state \<Rightarrow> env \<Rightarrow> string \<Rightarrow> state \<times> outcome" where
  "handleRequestAccounts s e orig =
     (let s0 = called (IsOriginConnected orig) s
      in if isOriginConnected e orig
         then (called GetCurrentWallet s0, Returns (VAccounts (current_accounts e)))
         else
           (let requestId = connect_id (now_id e);
                request = \<lparr>request_id = requestId, origin = orig, rpc_method = REQUEST_ACCOUNTS,
                           params = empty_params, timestamp = now_timestamp e\<rparr>;
                s1 = s0\<lparr>pendingRequests := (pendingRequests s0)(requestId \<mapsto> request)\<rparr>
            in case openPopupWithRequest e requestId s1 of
                 (s2, Fails m) \<Rightarrow> (s2, Throws (JSError m))
               | (s2, Ok _) \<Rightarrow>
                   (let (p, s3) = waitForApproval requestId APPROVAL_TIMEOUT_MS s2
                    in (s3, Pending p))))"

definition handleGetAccounts :: "state \<Rightarrow> env \<Rightarrow> string \<Rightarrow> state \<times> outcome" where
  "handleGetAccounts s e orig =
     (let s0 = called (IsOriginConnected orig) s
      in if \<not> isOriginConnected e orig then (s0, Returns (VAccounts []))
         else (called GetCurrentWallet s0, Returns (VAccounts (current_accounts e))))"

definition handleGetBalance :: "state \<Rightarrow> env \<Rightarrow> params option \<Rightarrow> state \<times> outcome" where
  "handleGetBalance s e ps =
     (case ps of
        None \<Rightarrow> (s, Throws TypeError)
      | Some p \<Rightarrow>
          if falsy (address p)
          then (s, Throws (RPCErr (createRPCError UNSUPPORTED_METHOD ''Address is required'')))
          else (called (GetBalance (address p)) s, Returns (VString (getBalance e (address p)))))"

definition handleSendTransaction ::
  "state \<Rightarrow> env \<Rightarrow> string \<Rightarrow> params option \<Rightarrow> state \<times> outcome" where
  "handleSendTransaction s e orig ps =
     (let s0 = called (IsOriginConnected orig) s
      in if \<not> isOriginConnected e orig
         then (s0, Throws (RPCErr (createRPCError UNAUTHORIZED ''Origin not connected'')))
         else case ps of
           None \<Rightarrow> (s0, Throws TypeError)
         | Some p \<Rightarrow>
             if falsy (to p) \<or> amount p = JUndefined
             then (s0, Throws (RPCErr (createRPCError UNSUPPORTED_METHOD ''Invalid transaction params'')))
             else
               (let requestId = tx_id (now_id e);
                    request = \<lparr>request_id = requestId, origin = orig, rpc_method = SEND_TRANSACTION,
                               params = p, timestamp = now_timestamp e\<rparr>;
                    s1 = s0\<lparr>pendingRequests := (pendingRequests s0)(requestId \<mapsto> request)\<rparr>
                in case openPopupWithRequest e requestId s1 of
                     (s2, Fails m) \<Rightarrow> (s2, Throws (JSError m))
                   | (s2, Ok _) \<Rightarrow>
                       (let (p', s3) = waitForApproval requestId APPROVAL_TIMEOUT_MS s2
                        in (s3, Pending p'))))"

definition handleGetNetwork :: "state \<Rightarrow> env \<Rightarrow> state \<times> outcome" where
  "handleGetNetwork s e = (called GetNetwork s, Returns (VString (getNetwork e)))"

text \<open>
  \<open>orig\<close> is \<^verbatim>\<open>new URL(sender.url!).origin\<close>, which the source computes before anything
  else; the source asserts (\<^verbatim>\<open>!\<close>) that the browser has attached a URL to the sender.
  \<open>m\<close> and \<open>ps\<close> are the \<^verbatim>\<open>method\<close> and the \<^verbatim>\<open>params\<close> of the request; \<open>ps = None\<close> stands
  for params that are \<^verbatim>\<open>undefined\<close> or \<^verbatim>\<open>null\<close>, on which reading a property throws.
\<close>

definition handleRPCRequest ::
  "state \<Rightarrow> env \<Rightarrow> string \<Rightarrow> RPCMethod \<Rightarrow> params option \<Rightarrow> state \<times> outcome" where
  "handleRPCRequest s e orig m ps =
     (if \<not> isUnlocked s \<and> m \<noteq> GET_NETWORK
      then (s, Throws (RPCErr (createRPCError UNAUTHORIZED ''Wallet is locked'')))
      else
        (let s1 = resetSessionTimeout s
         in case m of
              REQUEST_ACCOUNTS \<Rightarrow> handleRequestAccounts s1 e orig
            | GET_ACCOUNTS \<Rightarrow> handleGetAccounts s1 e orig
            | GET_BALANCE \<Rightarrow> handleGetBalance s1 e ps
            | SEND_TRANSACTION \<Rightarrow> handleSendTransaction s1 e orig ps
            | GET_NETWORK \<Rightarrow> handleGetNetwork s1 e
            | OtherMethod name \<Rightarrow>
                (s1, Throws (RPCErr (createRPCError UNSUPPORTED_METHOD
                                       (''Method not supported: '' @ name))))))"

subsection \<open>Handlers of the user's decisions\<close>

definition handleConnectionApproval :: "state \<Rightarrow> env \<Rightarrow> string \<Rightarrow> bool \<Rightarrow> state \<times> outcome" where
  "handleConnectionApproval s e requestId approved =
     (case pendingRequests s requestId of
        None \<Rightarrow> (s, Throws (JSError ''Request not found''))
      | Some request \<Rightarrow>
          (let s1 = (if approved
                     then resolveApproval requestId (VAccounts (current_accounts e))
                            (called GetCurrentWallet (called (AddConnectedSite (origin request)) s))
                     else rejectApproval requestId
                            (RPCErr (createRPCError USER_REJECTED ''User rejected connection'')) s)
           in (s1\<lparr>pendingRequests := (pendingRequests s1)(requestId := None)\<rparr>, Returns VSuccess)))"

definition handleTransactionApproval :: "state \<Rightarrow> env \<Rightarrow> string \<Rightarrow> bool \<Rightarrow> state \<times> outcome" where
  "handleTransactionApproval s e requestId approved =
     (case pendingRequests s requestId of
        None \<Rightarrow> (s, Throws (JSError ''Request not found''))
      | Some request \<Rightarrow>
          (let s1 = (if approved
                     then (let s0 = called (SendTransaction (params request)) s
                           in case sendTransaction e (params request) of
                                Ok txId \<Rightarrow> resolveApproval requestId (VString txId) s0
                              | Fails msg \<Rightarrow>
                                  rejectApproval requestId
                                    (RPCErr (createRPCError DISCONNECTED msg)) s0)
                     else rejectApproval requestId
                            (RPCErr (createRPCError USER_REJECTED ''User rejected transaction'')) s)
           in (s1\<lparr>pendingRequests := (pendingRequests s1)(requestId := None)\<rparr>, Returns VSuccess)))"

subsection \<open>Messages and timers\<close>

text \<open>
  A message is its \<^verbatim>\<open>type\<close> with the part of \<^verbatim>\<open>data\<close> its handler reads. A type that is
  none of the six is \<open>OtherMessage\<close>.
\<close>

datatype ExtensionMessage =
  RPC_REQUEST RPCMethod "params option"
  | WALLET_UNLOCKED
  | TRANSACTION_APPROVED string
  | TRANSACTION_REJECTED string
  | CONNECTION_APPROVED string
  | CONNECTION_REJECTED string
  | OtherMessage string

fun handleMessage :: "state \<Rightarrow> env \<Rightarrow> string \<Rightarrow> ExtensionMessage \<Rightarrow> state \<times> outcome" where
  "handleMessage s e orig (RPC_REQUEST m ps) = handleRPCRequest s e orig m ps"
| "handleMessage s e orig WALLET_UNLOCKED =
     (resetSessionTimeout (s\<lparr>isUnlocked := True\<rparr>), Returns VSuccess)"
| "handleMessage s e orig (TRANSACTION_APPROVED requestId) =
     handleTransactionApproval s e requestId True"
| "handleMessage s e orig (TRANSACTION_REJECTED requestId) =
     handleTransactionApproval s e requestId False"
| "handleMessage s e orig (CONNECTION_APPROVED requestId) =
     handleConnectionApproval s e requestId True"
| "handleMessage s e orig (CONNECTION_REJECTED requestId) =
     handleConnectionApproval s e requestId False"
| "handleMessage s e orig (OtherMessage t) =
     (s, Throws (JSError (''Unknown message type: '' @ t)))"

text \<open>A timer that fires leaves the set of timers and runs its body.\<close>

definition fire :: "nat \<Rightarrow> state \<Rightarrow> state" where
  "fire h s =
     (case timers s h of
        None \<Rightarrow> s
      | Some (t, d) \<Rightarrow>
          (let s1 = s\<lparr>timers := (timers s)(h := None)\<rparr>
           in case t of
                LockTimer \<Rightarrow> lockWallet s1
              | ApprovalTimer requestId p \<Rightarrow> approvalTimeout requestId p s1))"

datatype event = Receive ExtensionMessage string env | Fire nat

fun step :: "state \<Rightarrow> event \<Rightarrow> state" where
  "step s (Receive msg orig e) = fst (handleMessage s e orig msg)"
| "step s (Fire h) = fire h s"

definition run :: "state \<Rightarrow> event list \<Rightarrow> state" where
  "run s evs = foldl step s evs"

subsection \<open>Dispatches that need the user's consent\<close>

text \<open>
  A dispatch reaches the registration of a pending request when it is \<^verbatim>\<open>request_accounts\<close>
  from an origin that is not connected, or \<^verbatim>\<open>send_transaction\<close> from a connected origin
  with a truthy \<^verbatim>\<open>to\<close> and a defined \<^verbatim>\<open>amount\<close>. \<open>new_request\<close> is the entry it registers.
\<close>

definition needs_consent :: "env \<Rightarrow> string \<Rightarrow> RPCMethod \<Rightarrow> params option \<Rightarrow> bool" where
  "needs_consent e orig m ps =
     (case m of
        REQUEST_ACCOUNTS \<Rightarrow> \<not> isOriginConnected e orig
      | SEND_TRANSACTION \<Rightarrow>
          isOriginConnected e orig \<and>
          (case ps of Some p \<Rightarrow> \<not> falsy (to p) \<and> amount p \<noteq> JUndefined | None \<Rightarrow> False)
      | _ \<Rightarrow> False)"

definition new_request_id :: "env \<Rightarrow> RPCMethod \<Rightarrow> string" where
  "new_request_id e m = (if m = REQUEST_ACCOUNTS then connect_id (now_id e) else tx_id (now_id e))"

definition new_request :: "env \<Rightarrow> string \<Rightarrow> RPCMethod \<Rightarrow> params option \<Rightarrow> DAppRequest" where
  "new_request e orig m ps =
     \<lparr>request_id = new_request_id e m, origin = orig, rpc_method = m,
      params = (case (m, ps) of (SEND_TRANSACTION, Some p) \<Rightarrow> p | _ \<Rightarrow> empty_params),
      timestamp = now_timestamp e\<rparr>"

text \<open>The outcome of \<^verbatim>\<open>openPopupWithRequest\<close>, which does not depend on the state.\<close>

definition prompt_outcome :: "env \<Rightarrow> unit ext" where
  "prompt_outcome e = (case storageSessionSet e of Fails m \<Rightarrow> Fails m | Ok _ \<Rightarrow> openPopup e)"

subsection \<open>Decisions and timeouts on one request\<close>

text \<open>
  The events that race on a request id: the four decision messages carrying the id, and
  the firing of the timer \<open>h\<close> that \<^verbatim>\<open>waitForApproval\<close> set for it.
\<close>

fun races_on :: "string \<Rightarrow> nat \<Rightarrow> event \<Rightarrow> bool" where
  "races_on rid h (Fire h') = (h' = h)"
| "races_on rid h (Receive (TRANSACTION_APPROVED r) orig e) = (r = rid)"
| "races_on rid h (Receive (TRANSACTION_REJECTED r) orig e) = (r = rid)"
| "races_on rid h (Receive (CONNECTION_APPROVED r) orig e) = (r = rid)"
| "races_on rid h (Receive (CONNECTION_REJECTED r) orig e) = (r = rid)"
| "races_on rid h (Receive msg orig e) = False"

subsection \<open>Example inputs\<close>

definition T0 :: nat where
  "T0 = 1700000000000"

definition dapp :: string where
  "dapp = ''https://dapp.example''"

definition env0 :: env where
  "env0 = \<lparr>isOriginConnected = (\<lambda>_. False), getCurrentWallet = Some ''hoosat:qz0'',
     getBalance = (\<lambda>_. ''0''), getNetwork = ''mainnet'', sendTransaction = (\<lambda>_. Ok ''tx1''),
     storageSessionSet = Ok (), openPopup = Ok (), now_id = T0, now_timestamp = T0 + 1\<rparr>"

definition env_connected :: env where
  "env_connected = env0\<lparr>isOriginConnected := (\<lambda>_. True)\<rparr>"

definition env_no_popup :: env where
  "env_no_popup = env0\<lparr>openPopup := Fails ''Could not find an active browser window.''\<rparr>"

definition env_tx_fails :: env where
  "env_tx_fails = env_connected\<lparr>sendTransaction := (\<lambda>_. Fails ''insufficient funds'')\<rparr>"

definition unlocked :: state where
  "unlocked = initial\<lparr>isUnlocked := True\<rparr>"

definition tx_params :: params where
  "tx_params = \<lparr>to = JStr ''hoosat:qz1'', amount = JNum 100, address = JUndefined\<rparr>"

definition no_to_params :: params where
  "no_to_params = \<lparr>to = JUndefined, amount = JNum 100, address = JUndefined\<rparr>"

text \<open>
  The state after an unlocked session received \<^verbatim>\<open>send_transaction\<close> from a connected origin,
  and the one after it received \<^verbatim>\<open>request_accounts\<close> from an origin that is not connected.
\<close>

definition tx_pending :: state where
  "tx_pending = fst (handleRPCRequest unlocked env_connected dapp SEND_TRANSACTION (Some tx_params))"

definition connect_pending :: state where
  "connect_pending = fst (handleRPCRequest unlocked env0 dapp REQUEST_ACCOUNTS None)"

text \<open>
  The state after a second \<^verbatim>\<open>request_accounts\<close>, from another origin, arrived at the clock
  reading of the first while the first was still pending.
\<close>

definition other_dapp :: string where
  "other_dapp = ''https://other.example''"

definition connect_twice :: state where
  "connect_twice = fst (handleRPCRequest connect_pending env0 other_dapp REQUEST_ACCOUNTS None)"

section \<open>Properties\<close>

subsection \<open>Facts about the helpers\<close>

lemma calls_resetSessionTimeout: "calls (resetSessionTimeout s) = calls s"
  by (simp add: resetSessionTimeout_def setTimeout_def clearTimeout_def Let_def
      split: option.splits)

lemma pendingRequests_resetSessionTimeout:
  "pendingRequests (resetSessionTimeout s) = pendingRequests s"
  by (simp add: resetSessionTimeout_def setTimeout_def clearTimeout_def Let_def
      split: option.splits)

lemma timers_resetSessionTimeout:
  "timers (resetSessionTimeout s) (nextHandle s) = Some (LockTimer, SESSION_TIMEOUT_MS)"
  by (simp add: resetSessionTimeout_def setTimeout_def clearTimeout_def Let_def
      split: option.splits)

lemma sessionTimeout_resetSessionTimeout:
  "sessionTimeout (resetSessionTimeout s) = Some (nextHandle s)"
  by (simp add: resetSessionTimeout_def setTimeout_def clearTimeout_def Let_def
      split: option.splits)

lemma isUnlocked_resetSessionTimeout: "isUnlocked (resetSessionTimeout s) = isUnlocked s"
  by (simp add: resetSessionTimeout_def setTimeout_def clearTimeout_def Let_def
      split: option.splits)

lemma approvalResolvers_resetSessionTimeout:
  "approvalResolvers (resetSessionTimeout s) = approvalResolvers s"
  by (simp add: resetSessionTimeout_def setTimeout_def clearTimeout_def Let_def
      split: option.splits)

lemma settlements_resetSessionTimeout: "settlements (resetSessionTimeout s) = settlements s"
  by (simp add: resetSessionTimeout_def setTimeout_def clearTimeout_def Let_def
      split: option.splits)

lemma timers_resetSessionTimeout_old:
  "sessionTimeout s = Some h \<Longrightarrow> h \<noteq> 0 \<Longrightarrow> h \<noteq> nextHandle s \<Longrightarrow>
   timers (resetSessionTimeout s) h = None"
  by (simp add: resetSessionTimeout_def setTimeout_def clearTimeout_def Let_def)

lemmas example_defs = unlocked_def initial_def env0_def env_connected_def env_no_popup_def
  env_tx_fails_def dapp_def tx_params_def no_to_params_def empty_params_def

lemmas handler_defs = handleRPCRequest_def handleRequestAccounts_def handleSendTransaction_def
  handleGetAccounts_def handleGetBalance_def handleGetNetwork_def openPopupWithRequest_def
  waitForApproval_def resetSessionTimeout_def setTimeout_def clearTimeout_def called_def
  createRPCError_def current_accounts_def Let_def

lemma tx_pending_eq:
  "tx_pending =
     \<lparr>isUnlocked = True, sessionTimeout = Some 1,
      pendingRequests = [tx_id T0 \<mapsto> \<lparr>request_id = tx_id T0, origin = dapp,
         rpc_method = SEND_TRANSACTION, params = tx_params, timestamp = T0 + 1\<rparr>],
      approvalResolvers = [tx_id T0 \<mapsto> 0],
      timers = [1 \<mapsto> (LockTimer, SESSION_TIMEOUT_MS),
                2 \<mapsto> (ApprovalTimer (tx_id T0) 0, APPROVAL_TIMEOUT_MS)],
      nextHandle = 3, nextPromise = 1, settlements = [],
      calls = [IsOriginConnected dapp, StorageSessionSet (tx_id T0), OpenPopup]\<rparr>"
  by (simp add: tx_pending_def handler_defs example_defs numeral_2_eq_2)

lemma connect_pending_eq:
  "connect_pending =
     \<lparr>isUnlocked = True, sessionTimeout = Some 1,
      pendingRequests = [connect_id T0 \<mapsto> \<lparr>request_id = connect_id T0, origin = dapp,
         rpc_method = REQUEST_ACCOUNTS, params = empty_params, timestamp = T0 + 1\<rparr>],
      approvalResolvers = [connect_id T0 \<mapsto> 0],
      timers = [1 \<mapsto> (LockTimer, SESSION_TIMEOUT_MS),
                2 \<mapsto> (ApprovalTimer (connect_id T0) 0, APPROVAL_TIMEOUT_MS)],
      nextHandle = 3, nextPromise = 1, settlements = [],
      calls = [IsOriginConnected dapp, StorageSessionSet (connect_id T0), OpenPopup]\<rparr>"
  by (simp add: connect_pending_def handler_defs example_defs numeral_2_eq_2)

lemma connect_timed_out_eq:
  "fire 2 connect_pending =
     \<lparr>isUnlocked = True, sessionTimeout = Some 1,
      pendingRequests = [connect_id T0 \<mapsto> \<lparr>request_id = connect_id T0, origin = dapp,
         rpc_method = REQUEST_ACCOUNTS, params = empty_params, timestamp = T0 + 1\<rparr>],
      approvalResolvers = Map.empty,
      timers = [1 \<mapsto> (LockTimer, SESSION_TIMEOUT_MS)],
      nextHandle = 3, nextPromise = 1,
      settlements = [(0, Rejected (RPCErr \<lparr>code = USER_REJECTED, message = ''Request timeout''\<rparr>))],
      calls = [IsOriginConnected dapp, StorageSessionSet (connect_id T0), OpenPopup]\<rparr>"
  by (simp add: connect_pending_eq fire_def approvalTimeout_def createRPCError_def fun_upd_twist)

subsection \<open>Request ids determine the clock reading\<close>

lemma digit_char_inj:
  assumes "d < 10" "d' < 10" "digit_char d = digit_char d'"
  shows "d = d'"
proof -
  have d: "d \<in> {0, 1, 2, 3, 4, 5, 6, 7, 8, 9}" using assms(1) by auto
  have d': "d' \<in> {0, 1, 2, 3, 4, 5, 6, 7, 8, 9}" using assms(2) by auto
  from d d' assms(3) show ?thesis
    unfolding digit_char_def by (elim insertE emptyE) simp_all
qed

lemma decimal_nonempty: "decimal n \<noteq> []"
  by (subst decimal.simps) simp

lemma decimal_inj: "decimal m = decimal n \<Longrightarrow> m = n"
proof (induction m arbitrary: n rule: decimal.induct)
  case (1 m)
  show ?case
  proof (cases "m < 10")
    case small: True
    show ?thesis
    proof (cases "n < 10")
      case True
      with small "1.prems" show ?thesis
        by (simp add: decimal.simps [of m] decimal.simps [of n] digit_char_inj)
    next
      case False
      with small "1.prems" decimal_nonempty [of "n div 10"] show ?thesis
        by (simp add: decimal.simps [of m] decimal.simps [of n])
    qed
  next
    case big: False
    show ?thesis
    proof (cases "n < 10")
      case True
      with big "1.prems" decimal_nonempty [of "m div 10"] show ?thesis
        by (simp add: decimal.simps [of m] decimal.simps [of n])
    next
      case False
      with big "1.prems" have eq: "decimal (m div 10) = decimal (n div 10)"
        and dg: "digit_char (m mod 10) = digit_char (n mod 10)"
        by (simp_all add: decimal.simps [of m] decimal.simps [of n])
      from "1.IH" [OF big eq] have q: "m div 10 = n div 10" .
      from dg have r: "m mod 10 = n mod 10" by (intro digit_char_inj) simp_all
      have "m = 10 * (m div 10) + m mod 10" by simp
      also have "\<dots> = 10 * (n div 10) + n mod 10" using q r by simp
      finally show ?thesis by simp
    qed
  qed
qed

lemma connect_id_inj: "connect_id t = connect_id t' \<longleftrightarrow> t = t'"
  by (auto simp: connect_id_def dest: decimal_inj)

lemma tx_id_inj: "tx_id t = tx_id t' \<longleftrightarrow> t = t'"
  by (auto simp: tx_id_def dest: decimal_inj)

lemma connect_id_neq_tx_id: "connect_id t \<noteq> tx_id t'"
  by (simp add: connect_id_def tx_id_def)

lemma new_request_id_eq_iff:
  assumes "m = REQUEST_ACCOUNTS \<or> m = SEND_TRANSACTION"
    and "m' = REQUEST_ACCOUNTS \<or> m' = SEND_TRANSACTION"
  shows "new_request_id e m = new_request_id e' m' \<longleftrightarrow> m = m' \<and> now_id e = now_id e'"
  using assms connect_id_neq_tx_id [of "now_id e" "now_id e'"]
    connect_id_neq_tx_id [of "now_id e'" "now_id e"]
  by (auto simp: new_request_id_def connect_id_inj tx_id_inj)

lemma needs_consent_method:
  "needs_consent e orig m ps \<Longrightarrow> m = REQUEST_ACCOUNTS \<or> m = SEND_TRANSACTION"
  by (auto simp: needs_consent_def split: RPCMethod.splits)

lemma registration_elsewhere:
  assumes "rid \<noteq> new_request_id e m"
  shows "pendingRequests (fst (handleRPCRequest s e orig m ps)) rid = pendingRequests s rid"
  using assms
  by (cases m; cases ps)
    (auto simp: handler_defs new_request_id_def split: option.splits ext.splits)

lemma registration_at_new_id:
  assumes "isUnlocked s" and "needs_consent e orig m ps"
  shows "pendingRequests (fst (handleRPCRequest s e orig m ps)) (new_request_id e m) =
           Some (new_request e orig m ps)"
  using assms
  by (cases m; cases ps)
    (auto simp: handler_defs needs_consent_def new_request_id_def new_request_def
      split: option.splits ext.splits)

lemma registrations_with_distinct_clock_or_method:
  assumes "isUnlocked s" and "needs_consent e orig m ps" and "needs_consent e' orig' m' ps'"
    and "m \<noteq> m' \<or> now_id e \<noteq> now_id e'"
  shows "new_request_id e m \<noteq> new_request_id e' m'"
    and "pendingRequests (fst (handleRPCRequest s e orig m ps)) (new_request_id e m) =
           Some (new_request e orig m ps)"
    and "pendingRequests (fst (handleRPCRequest s e orig m ps)) (new_request_id e' m') =
           pendingRequests s (new_request_id e' m')"
proof -
  show ne: "new_request_id e m \<noteq> new_request_id e' m'"
    using new_request_id_eq_iff [OF needs_consent_method [OF assms(2)]
        needs_consent_method [OF assms(3)], of e e'] assms(4)
    by blast
  show "pendingRequests (fst (handleRPCRequest s e orig m ps)) (new_request_id e m) =
          Some (new_request e orig m ps)"
    by (rule registration_at_new_id [OF assms(1) assms(2)])
  from ne show "pendingRequests (fst (handleRPCRequest s e orig m ps)) (new_request_id e' m') =
          pendingRequests s (new_request_id e' m')"
    using registration_elsewhere [of "new_request_id e' m'" e m s orig ps] by simp
qed

lemma registrations_with_same_clock_and_method:
  assumes "isUnlocked s" and "needs_consent e orig m ps" and "needs_consent e' orig' m ps'"
    and "now_id e = now_id e'"
  shows "new_request_id e m = new_request_id e' m"
    and "pendingRequests (fst (handleRPCRequest s e orig m ps)) (new_request_id e' m) =
           Some (new_request e orig m ps)"
proof -
  show eq: "new_request_id e m = new_request_id e' m"
    using assms(4) by (simp add: new_request_id_def)
  show "pendingRequests (fst (handleRPCRequest s e orig m ps)) (new_request_id e' m) =
          Some (new_request e orig m ps)"
    using registration_at_new_id [OF assms(1) assms(2)] unfolding eq .
qed

lemma connect_twice_eq:
  "connect_twice =
     \<lparr>isUnlocked = True, sessionTimeout = Some 3,
      pendingRequests = [connect_id T0 \<mapsto> \<lparr>request_id = connect_id T0, origin = other_dapp,
         rpc_method = REQUEST_ACCOUNTS, params = empty_params, timestamp = T0 + 1\<rparr>],
      approvalResolvers = [connect_id T0 \<mapsto> 1],
      timers = [2 \<mapsto> (ApprovalTimer (connect_id T0) 0, APPROVAL_TIMEOUT_MS),
                3 \<mapsto> (LockTimer, SESSION_TIMEOUT_MS),
                4 \<mapsto> (ApprovalTimer (connect_id T0) 1, APPROVAL_TIMEOUT_MS)],
      nextHandle = 5, nextPromise = 2, settlements = [],
      calls = [IsOriginConnected dapp, StorageSessionSet (connect_id T0), OpenPopup,
               IsOriginConnected other_dapp, StorageSessionSet (connect_id T0), OpenPopup]\<rparr>"
  by (simp add: connect_twice_def connect_pending_eq)
    (auto simp add: handler_defs env0_def fun_upd_twist)

subsection \<open>Decisions and the timeout racing on one request id\<close>

text \<open>
  From a state in which the request is pending, its waiter is registered and its timer is
  set, any non-empty sequence of decisions on the id and firings of the timer calls a
  continuation of the waiter's promise exactly once (the first event does, every later
  one finds no waiter). The pending entry is gone once one of the events is a decision.
\<close>

lemmas decision_defs = handleTransactionApproval_def handleConnectionApproval_def
  resolveApproval_def rejectApproval_def approvalTimeout_def fire_def called_def Let_def

lemma approval_timer_fires:
  assumes "timers s h = Some (ApprovalTimer rid p, d)" and "approvalResolvers s rid = Some q"
  shows "settlements (fire h s) =
           settlements s @ [(p, Rejected (RPCErr \<lparr>code = USER_REJECTED, message = ''Request timeout''\<rparr>))]"
    and "approvalResolvers (fire h s) rid = None"
    and "pendingRequests (fire h s) = pendingRequests s"
    and "timers (fire h s) h = None"
  using assms by (simp_all add: fire_def approvalTimeout_def createRPCError_def)

lemma race_step_first:
  assumes "approvalResolvers s rid = Some p" and "pendingRequests s rid \<noteq> None"
    and "timers s h = Some (ApprovalTimer rid p, d)" and "races_on rid h ev"
  shows "\<exists>x. settlements (step s ev) = settlements s @ [(p, x)]"
    and "approvalResolvers (step s ev) rid = None"
    and "timers (step s ev) h = None \<or> timers (step s ev) h = Some (ApprovalTimer rid p, d)"
    and "ev \<noteq> Fire h \<longrightarrow> pendingRequests (step s ev) rid = None"
proof -
  show "\<exists>x. settlements (step s ev) = settlements s @ [(p, x)]"
  proof (cases ev)
    case (Fire h')
    with assms show ?thesis by (simp add: decision_defs)
  next
    case (Receive msg orig e)
    with assms show ?thesis
      by (cases msg) (auto simp: decision_defs split: ext.splits)
  qed
  show "approvalResolvers (step s ev) rid = None"
  proof (cases ev)
    case (Fire h')
    with assms show ?thesis by (simp add: decision_defs)
  next
    case (Receive msg orig e)
    with assms show ?thesis
      by (cases msg) (auto simp: decision_defs split: ext.splits)
  qed
  show "timers (step s ev) h = None \<or> timers (step s ev) h = Some (ApprovalTimer rid p, d)"
  proof (cases ev)
    case (Fire h')
    with assms show ?thesis by (simp add: decision_defs)
  next
    case (Receive msg orig e)
    with assms show ?thesis
      by (cases msg) (auto simp: decision_defs split: ext.splits)
  qed
  show "ev \<noteq> Fire h \<longrightarrow> pendingRequests (step s ev) rid = None"
  proof (cases ev)
    case (Fire h')
    with assms show ?thesis by simp
  next
    case (Receive msg orig e)
    with assms show ?thesis
      by (cases msg) (auto simp: decision_defs split: ext.splits)
  qed
qed

lemma race_step_after:
  assumes "approvalResolvers s rid = None" and "races_on rid h ev"
    and "timers s h = None \<or> timers s h = Some (ApprovalTimer rid p, d)"
  shows "settlements (step s ev) = settlements s"
    and "approvalResolvers (step s ev) rid = None"
    and "timers (step s ev) h = None \<or> timers (step s ev) h = Some (ApprovalTimer rid p, d)"
    and "pendingRequests s rid = None \<or> ev \<noteq> Fire h \<longrightarrow> pendingRequests (step s ev) rid = None"
proof -
  show "settlements (step s ev) = settlements s"
  proof (cases ev)
    case (Fire h')
    with assms show ?thesis by (auto simp: decision_defs)
  next
    case (Receive msg orig e)
    with assms show ?thesis
      by (cases msg) (auto simp: decision_defs split: ext.splits option.splits)
  qed
  show "approvalResolvers (step s ev) rid = None"
  proof (cases ev)
    case (Fire h')
    with assms show ?thesis by (auto simp: decision_defs)
  next
    case (Receive msg orig e)
    with assms show ?thesis
      by (cases msg) (auto simp: decision_defs split: ext.splits option.splits)
  qed
  show "timers (step s ev) h = None \<or> timers (step s ev) h = Some (ApprovalTimer rid p, d)"
  proof (cases ev)
    case (Fire h')
    with assms show ?thesis by (auto simp: decision_defs)
  next
    case (Receive msg orig e)
    with assms show ?thesis
      by (cases msg) (auto simp: decision_defs split: ext.splits option.splits)
  qed
  show "pendingRequests s rid = None \<or> ev \<noteq> Fire h \<longrightarrow> pendingRequests (step s ev) rid = None"
  proof (cases ev)
    case (Fire h')
    with assms show ?thesis by (auto simp: decision_defs)
  next
    case (Receive msg orig e)
    with assms show ?thesis
      by (cases msg) (auto simp: decision_defs split: ext.splits option.splits)
  qed
qed

lemma race_rest:
  assumes "\<forall>ev \<in> set evs. races_on rid h ev" and "approvalResolvers s rid = None"
    and "timers s h = None \<or> timers s h = Some (ApprovalTimer rid p, d)"
  shows "settlements (run s evs) = settlements s \<and>
         approvalResolvers (run s evs) rid = None \<and>
         (pendingRequests s rid = None \<or> (\<exists>ev \<in> set evs. ev \<noteq> Fire h) \<longrightarrow>
            pendingRequests (run s evs) rid = None)"
  using assms
proof (induction evs arbitrary: s)
  case Nil
  then show ?case by (simp add: run_def)
next
  case (Cons ev evs)
  from Cons.prems have r: "races_on rid h ev" and rs: "\<forall>ev \<in> set evs. races_on rid h ev"
    by simp_all
  note st = race_step_after [OF Cons.prems(2) r Cons.prems(3)]
  from Cons.IH [OF rs st(2) st(3)] st(1) st(4) show ?case
    by (auto simp: run_def)
qed

lemma race_settles_once:
  assumes "evs \<noteq> []" and "\<forall>ev \<in> set evs. races_on rid h ev"
    and "approvalResolvers s rid = Some p" and "pendingRequests s rid \<noteq> None"
    and "timers s h = Some (ApprovalTimer rid p, d)"
  shows "(\<exists>x. settlements (run s evs) = settlements s @ [(p, x)]) \<and>
         approvalResolvers (run s evs) rid = None \<and>
         ((\<exists>ev \<in> set evs. ev \<noteq> Fire h) \<longrightarrow> pendingRequests (run s evs) rid = None)"
proof -
  from assms(1) obtain ev rest where evs: "evs = ev # rest" by (cases evs) auto
  with assms(2) have r: "races_on rid h ev" and rs: "\<forall>ev \<in> set rest. races_on rid h ev"
    by simp_all
  note st = race_step_first [OF assms(3) assms(4) assms(5) r]
  note rest = race_rest [OF rs st(2) st(3)]
  from st(1) obtain x where x: "settlements (step s ev) = settlements s @ [(p, x)]" ..
  have run: "run s (ev # rest) = run (step s ev) rest" by (simp add: run_def)
  from rest x st(4) show ?thesis unfolding evs run by auto
qed

subsection \<open>The locked session\<close>

text \<open>
  Claim C4. While the session is locked, a dispatch of any method other than
  \<^verbatim>\<open>get_network\<close> throws the RPC error with code \<open>UNAUTHORIZED\<close> and message
  "Wallet is locked", and the whole state, the registry of pending requests included, is
  the one before the call.
\<close>

theorem locked_dispatch_unauthorized:
  assumes "\<not> isUnlocked s" and "m \<noteq> GET_NETWORK"
  shows "handleRPCRequest s e orig m ps =
           (s, Throws (RPCErr \<lparr>code = UNAUTHORIZED, message = ''Wallet is locked''\<rparr>))"
  using assms by (simp add: handleRPCRequest_def createRPCError_def)

theorem locked_dispatch_unauthorized_witness:
  "\<not> isUnlocked initial \<and> SEND_TRANSACTION \<noteq> GET_NETWORK \<and>
   handleRPCRequest initial env_connected dapp SEND_TRANSACTION (Some tx_params) =
     (initial, Throws (RPCErr \<lparr>code = UNAUTHORIZED, message = ''Wallet is locked''\<rparr>)) \<and>
   pendingRequests (fst (handleRPCRequest initial env_connected dapp SEND_TRANSACTION (Some tx_params)))
     = Map.empty"
proof -
  have l: "\<not> isUnlocked initial" by (simp add: initial_def)
  have m: "SEND_TRANSACTION \<noteq> GET_NETWORK" by simp
  from locked_dispatch_unauthorized [OF l m, of env_connected dapp "Some tx_params"] l m
  show ?thesis by (simp add: initial_def)
qed

subsection \<open>Balance queries\<close>

text \<open>
  Claim C10. A \<^verbatim>\<open>get_balance\<close> call whose params carry a falsy \<^verbatim>\<open>address\<close> (absent, null,
  empty, zero or false) throws the RPC error with code \<open>UNSUPPORTED_METHOD\<close> and message
  "Address is required", and the state is unchanged: no call to the wallet manager's
  \<^verbatim>\<open>getBalance\<close> is made. The dispatcher routes to this handler once the session is
  unlocked, and then the list of calls to collaborators is the one before the dispatch.
\<close>

theorem get_balance_address_required:
  assumes "falsy (address p)"
  shows "handleGetBalance s e (Some p) =
           (s, Throws (RPCErr \<lparr>code = UNSUPPORTED_METHOD, message = ''Address is required''\<rparr>)) \<and>
         (isUnlocked s \<longrightarrow>
            snd (handleRPCRequest s e orig GET_BALANCE (Some p)) =
              Throws (RPCErr \<lparr>code = UNSUPPORTED_METHOD, message = ''Address is required''\<rparr>) \<and>
            calls (fst (handleRPCRequest s e orig GET_BALANCE (Some p))) = calls s)"
  using assms
  by (simp add: handleGetBalance_def handleRPCRequest_def createRPCError_def
      calls_resetSessionTimeout)

theorem get_balance_address_required_witness:
  "falsy (address (empty_params\<lparr>address := JStr ''''\<rparr>)) \<and> isUnlocked unlocked \<and>
   snd (handleRPCRequest unlocked env0 dapp GET_BALANCE (Some (empty_params\<lparr>address := JStr ''''\<rparr>))) =
     Throws (RPCErr \<lparr>code = UNSUPPORTED_METHOD, message = ''Address is required''\<rparr>) \<and>
   calls (fst (handleRPCRequest unlocked env0 dapp GET_BALANCE (Some (empty_params\<lparr>address := JStr ''''\<rparr>)))) = []"
proof -
  have f: "falsy (address (empty_params\<lparr>address := JStr ''''\<rparr>))" by simp
  have u: "isUnlocked unlocked" by (simp add: unlocked_def)
  from get_balance_address_required [OF f, of unlocked env0 dapp] f u
  show ?thesis by (simp add: unlocked_def initial_def)
qed

subsection \<open>Approval of a transaction that the wallet manager fails to submit\<close>

text \<open>
  Claim C7. A pending transaction request with a registered waiter is approved and
  \<^verbatim>\<open>walletManager.sendTransaction\<close> fails with a message. Then the waiter's \<^verbatim>\<open>reject\<close> is
  called once, with the RPC error of code \<open>DISCONNECTED\<close> that carries this message; the
  handler itself returns \<^verbatim>\<open>{success: true}\<close> instead of throwing; the wallet manager was
  asked to submit exactly once; and the entries of the id have left both registries.
\<close>

theorem transaction_submit_failure:
  assumes "pendingRequests s rid = Some request" and "approvalResolvers s rid = Some p"
    and "sendTransaction e (params request) = Fails msg"
  shows "snd (handleTransactionApproval s e rid True) = Returns VSuccess \<and>
         settlements (fst (handleTransactionApproval s e rid True)) =
           settlements s @ [(p, Rejected (RPCErr \<lparr>code = DISCONNECTED, message = msg\<rparr>))] \<and>
         calls (fst (handleTransactionApproval s e rid True)) =
           calls s @ [SendTransaction (params request)] \<and>
         pendingRequests (fst (handleTransactionApproval s e rid True)) rid = None \<and>
         approvalResolvers (fst (handleTransactionApproval s e rid True)) rid = None"
  using assms
  by (simp add: handleTransactionApproval_def rejectApproval_def called_def createRPCError_def)


theorem transaction_submit_failure_witness:
  "pendingRequests tx_pending (tx_id T0) =
     Some \<lparr>request_id = tx_id T0, origin = dapp, rpc_method = SEND_TRANSACTION,
           params = tx_params, timestamp = T0 + 1\<rparr> \<and>
   approvalResolvers tx_pending (tx_id T0) = Some 0 \<and>
   sendTransaction env_tx_fails tx_params = Fails ''insufficient funds'' \<and>
   settlements (fst (handleTransactionApproval tx_pending env_tx_fails (tx_id T0) True)) =
     [(0, Rejected (RPCErr \<lparr>code = DISCONNECTED, message = ''insufficient funds''\<rparr>))] \<and>
   calls (fst (handleTransactionApproval tx_pending env_tx_fails (tx_id T0) True)) =
     [IsOriginConnected dapp, StorageSessionSet (tx_id T0), OpenPopup, SendTransaction tx_params] \<and>
   pendingRequests (fst (handleTransactionApproval tx_pending env_tx_fails (tx_id T0) True))
     (tx_id T0) = None"
proof -
  let ?r = "\<lparr>request_id = tx_id T0, origin = dapp, rpc_method = SEND_TRANSACTION,
             params = tx_params, timestamp = T0 + 1\<rparr>"
  have a: "pendingRequests tx_pending (tx_id T0) = Some ?r"
    by (simp add: tx_pending_eq)
  have b: "approvalResolvers tx_pending (tx_id T0) = Some 0"
    by (simp add: tx_pending_eq)
  have c: "sendTransaction env_tx_fails (params ?r) = Fails ''insufficient funds''"
    by (simp add: env_tx_fails_def)
  from transaction_submit_failure [OF a b c] a b c show ?thesis
    by (simp add: tx_pending_eq)
qed

subsection \<open>Approval of a connection after its timeout\<close>

text \<open>
  Claim C9. The waiter of a request id is gone (its timeout has removed it) while the
  pending request is still registered. Approving the connection then calls
  \<^verbatim>\<open>addConnectedSite\<close> with the request's origin, deletes the pending entry, returns
  \<^verbatim>\<open>{success: true}\<close>, and invokes no continuation: the list of settlements is unchanged.
\<close>

theorem connection_approval_after_timeout:
  assumes "pendingRequests s rid = Some request" and "approvalResolvers s rid = None"
  shows "snd (handleConnectionApproval s e rid True) = Returns VSuccess \<and>
         calls (fst (handleConnectionApproval s e rid True)) =
           calls s @ [AddConnectedSite (origin request), GetCurrentWallet] \<and>
         pendingRequests (fst (handleConnectionApproval s e rid True)) rid = None \<and>
         settlements (fst (handleConnectionApproval s e rid True)) = settlements s"
  using assms
  by (simp add: handleConnectionApproval_def resolveApproval_def called_def)

theorem connection_approval_after_timeout_witness:
  "pendingRequests (fire 2 connect_pending) (connect_id T0) =
     Some \<lparr>request_id = connect_id T0, origin = dapp, rpc_method = REQUEST_ACCOUNTS,
           params = empty_params, timestamp = T0 + 1\<rparr> \<and>
   approvalResolvers (fire 2 connect_pending) (connect_id T0) = None \<and>
   snd (handleConnectionApproval (fire 2 connect_pending) env0 (connect_id T0) True) =
     Returns VSuccess \<and>
   calls (fst (handleConnectionApproval (fire 2 connect_pending) env0 (connect_id T0) True)) =
     [IsOriginConnected dapp, StorageSessionSet (connect_id T0), OpenPopup,
      AddConnectedSite dapp, GetCurrentWallet] \<and>
   settlements (fst (handleConnectionApproval (fire 2 connect_pending) env0 (connect_id T0) True)) =
     [(0, Rejected (RPCErr \<lparr>code = USER_REJECTED, message = ''Request timeout''\<rparr>))]"
proof -
  let ?r = "\<lparr>request_id = connect_id T0, origin = dapp, rpc_method = REQUEST_ACCOUNTS,
             params = empty_params, timestamp = T0 + 1\<rparr>"
  have a: "pendingRequests (fire 2 connect_pending) (connect_id T0) = Some ?r"
    by (simp add: connect_timed_out_eq)
  have b: "approvalResolvers (fire 2 connect_pending) (connect_id T0) = None"
    by (simp add: connect_timed_out_eq)
  from connection_approval_after_timeout [OF a b, of env0] a b show ?thesis
    by (simp add: connect_timed_out_eq)
qed

subsection \<open>The inactivity timer and the locked session\<close>

text \<open>
  Claim C8 says that rearming the inactivity timer is a no-op while the session is locked,
  and that a \<^verbatim>\<open>get_network\<close> dispatch in a locked session arms no timer. The dispatcher
  calls \<^verbatim>\<open>resetSessionTimeout\<close> after the lock check, which \<^verbatim>\<open>get_network\<close> passes in a
  locked session, and \<^verbatim>\<open>resetSessionTimeout\<close> does not read \<^verbatim>\<open>isUnlocked\<close>. In the initial
  state (locked, no timer) the dispatch sets the timer with handle 1.
\<close>

theorem get_network_arms_timer_when_locked_counterexample:
  "\<not> isUnlocked initial \<and> sessionTimeout initial = None \<and> timers initial 1 = None \<and>
   sessionTimeout (fst (handleRPCRequest initial env0 dapp GET_NETWORK None)) = Some 1 \<and>
   timers (fst (handleRPCRequest initial env0 dapp GET_NETWORK None)) 1 =
     Some (LockTimer, SESSION_TIMEOUT_MS)"
  by (simp add: handler_defs example_defs)

text \<open>
  Claim C8 as amended. A \<^verbatim>\<open>get_network\<close> dispatch in a locked session returns the network
  and rearms the inactivity timer: the timer recorded in \<^verbatim>\<open>sessionTimeout\<close>, if any, is
  cleared, a new timer that will lock the wallet after \<open>SESSION_TIMEOUT_MS\<close> is set and
  recorded, and the session stays locked.
\<close>

theorem get_network_rearms_when_locked:
  assumes "\<not> isUnlocked s"
  shows "snd (handleRPCRequest s e orig GET_NETWORK ps) = Returns (VString (getNetwork e)) \<and>
         sessionTimeout (fst (handleRPCRequest s e orig GET_NETWORK ps)) = Some (nextHandle s) \<and>
         timers (fst (handleRPCRequest s e orig GET_NETWORK ps)) (nextHandle s) =
           Some (LockTimer, SESSION_TIMEOUT_MS) \<and>
         (\<forall>h. sessionTimeout s = Some h \<and> h \<noteq> 0 \<and> h \<noteq> nextHandle s \<longrightarrow>
              timers (fst (handleRPCRequest s e orig GET_NETWORK ps)) h = None) \<and>
         \<not> isUnlocked (fst (handleRPCRequest s e orig GET_NETWORK ps))"
  using assms
  by (simp add: handleRPCRequest_def handleGetNetwork_def called_def
      timers_resetSessionTimeout sessionTimeout_resetSessionTimeout
      isUnlocked_resetSessionTimeout timers_resetSessionTimeout_old Let_def)

theorem get_network_rearms_when_locked_witness:
  "\<not> isUnlocked (lockWallet tx_pending) \<and>
   sessionTimeout (lockWallet tx_pending) = Some 1 \<and> (1::nat) \<noteq> 0 \<and>
   1 \<noteq> nextHandle (lockWallet tx_pending) \<and>
   snd (handleRPCRequest (lockWallet tx_pending) env0 dapp GET_NETWORK None) =
     Returns (VString ''mainnet'') \<and>
   sessionTimeout (fst (handleRPCRequest (lockWallet tx_pending) env0 dapp GET_NETWORK None)) = Some 3 \<and>
   timers (fst (handleRPCRequest (lockWallet tx_pending) env0 dapp GET_NETWORK None)) 3 =
     Some (LockTimer, SESSION_TIMEOUT_MS) \<and>
   timers (fst (handleRPCRequest (lockWallet tx_pending) env0 dapp GET_NETWORK None)) 1 = None \<and>
   \<not> isUnlocked (fst (handleRPCRequest (lockWallet tx_pending) env0 dapp GET_NETWORK None))"
proof -
  have l: "\<not> isUnlocked (lockWallet tx_pending)"
    by (simp add: lockWallet_def called_def)
  have f: "sessionTimeout (lockWallet tx_pending) = Some 1" "nextHandle (lockWallet tx_pending) = 3"
    by (simp_all add: lockWallet_def called_def tx_pending_eq)
  from get_network_rearms_when_locked [OF l, of env0 dapp None] l f show ?thesis
    by (simp add: env0_def)
qed

subsection \<open>Validation of the transaction params\<close>

text \<open>
  Claim C5 says that \<^verbatim>\<open>send_transaction\<close> without \<^verbatim>\<open>to\<close> or with an undefined \<^verbatim>\<open>amount\<close> fails
  with an InvalidParams error. The error thrown carries the code \<open>UNSUPPORTED_METHOD\<close>,
  the code that the dispatch of an unknown method carries; only the message tells the
  two apart.
\<close>

theorem send_transaction_invalid_params_counterexample:
  "snd (handleRPCRequest unlocked env_connected dapp SEND_TRANSACTION (Some no_to_params)) =
     Throws (RPCErr \<lparr>code = UNSUPPORTED_METHOD, message = ''Invalid transaction params''\<rparr>) \<and>
   snd (handleRPCRequest unlocked env_connected dapp (OtherMethod ''sign_message'') None) =
     Throws (RPCErr \<lparr>code = UNSUPPORTED_METHOD, message = ''Method not supported: sign_message''\<rparr>)"
  by (simp add: handler_defs example_defs)

text \<open>
  Claim C5 as amended. For a connected origin, \<^verbatim>\<open>send_transaction\<close> with a falsy \<^verbatim>\<open>to\<close> or an
  undefined \<^verbatim>\<open>amount\<close> throws the RPC error with code \<open>UNSUPPORTED_METHOD\<close> and message
  "Invalid transaction params", and the registry of pending requests is the one before
  the call; so it is for the dispatch of such a request in an unlocked session.
\<close>

theorem send_transaction_invalid_params:
  assumes "isOriginConnected e orig" and "falsy (to p) \<or> amount p = JUndefined"
  shows "snd (handleSendTransaction s e orig (Some p)) =
           Throws (RPCErr \<lparr>code = UNSUPPORTED_METHOD, message = ''Invalid transaction params''\<rparr>) \<and>
         pendingRequests (fst (handleSendTransaction s e orig (Some p))) = pendingRequests s \<and>
         (isUnlocked s \<longrightarrow>
            snd (handleRPCRequest s e orig SEND_TRANSACTION (Some p)) =
              Throws (RPCErr \<lparr>code = UNSUPPORTED_METHOD, message = ''Invalid transaction params''\<rparr>) \<and>
            pendingRequests (fst (handleRPCRequest s e orig SEND_TRANSACTION (Some p))) =
              pendingRequests s)"
  using assms
  by (auto simp add: handleRPCRequest_def handleSendTransaction_def called_def createRPCError_def
      pendingRequests_resetSessionTimeout Let_def)

theorem send_transaction_invalid_params_witness:
  "isOriginConnected env_connected dapp \<and>
   (falsy (to no_to_params) \<or> amount no_to_params = JUndefined) \<and> isUnlocked unlocked \<and>
   snd (handleRPCRequest unlocked env_connected dapp SEND_TRANSACTION (Some no_to_params)) =
     Throws (RPCErr \<lparr>code = UNSUPPORTED_METHOD, message = ''Invalid transaction params''\<rparr>) \<and>
   pendingRequests (fst (handleRPCRequest unlocked env_connected dapp SEND_TRANSACTION (Some no_to_params)))
     = Map.empty"
proof -
  have c: "isOriginConnected env_connected dapp" by (simp add: env_connected_def)
  have f: "falsy (to no_to_params) \<or> amount no_to_params = JUndefined"
    by (simp add: no_to_params_def)
  have u: "isUnlocked unlocked" by (simp add: unlocked_def)
  from send_transaction_invalid_params [OF c f, of unlocked] c f u show ?thesis
    by (simp add: unlocked_def initial_def)
qed

subsection \<open>Failure of the prompt surface\<close>

text \<open>
  Claim C3 says that a failure to show the prompt does not fail the dispatch: the caller
  stays suspended and the request times out later. The handlers await
  \<^verbatim>\<open>openPopupWithRequest\<close> before they call \<^verbatim>\<open>waitForApproval\<close>, with no handler around it.
  When the popup cannot be opened, \<^verbatim>\<open>request_accounts\<close> from an origin that is not
  connected throws the popup's error, registers no waiter and sets no timer but the
  inactivity timer.
\<close>

theorem prompt_failure_counterexample:
  "needs_consent env_no_popup dapp REQUEST_ACCOUNTS None \<and>
   snd (handleRPCRequest unlocked env_no_popup dapp REQUEST_ACCOUNTS None) =
     Throws (JSError ''Could not find an active browser window.'') \<and>
   approvalResolvers (fst (handleRPCRequest unlocked env_no_popup dapp REQUEST_ACCOUNTS None))
     (connect_id T0) = None \<and>
   timers (fst (handleRPCRequest unlocked env_no_popup dapp REQUEST_ACCOUNTS None)) =
     [1 \<mapsto> (LockTimer, SESSION_TIMEOUT_MS)]"
  by (simp add: handler_defs example_defs needs_consent_def)

text \<open>
  Claim C3 as amended. In an unlocked session, when a dispatch that needs consent fails
  to store the request id in the session storage or to open the popup, the dispatch
  throws that failure; the pending request is registered under the new id; no waiter is
  registered, no continuation is called, and no timer is set but the inactivity timer.
\<close>

theorem prompt_failure_is_thrown:
  assumes "isUnlocked s" and "needs_consent e orig m ps" and "prompt_outcome e = Fails msg"
  shows "snd (handleRPCRequest s e orig m ps) = Throws (JSError msg) \<and>
         pendingRequests (fst (handleRPCRequest s e orig m ps)) (new_request_id e m) =
           Some (new_request e orig m ps) \<and>
         approvalResolvers (fst (handleRPCRequest s e orig m ps)) = approvalResolvers s \<and>
         timers (fst (handleRPCRequest s e orig m ps)) = timers (resetSessionTimeout s) \<and>
         settlements (fst (handleRPCRequest s e orig m ps)) = settlements s"
  using assms
  by (cases m; cases ps)
    (auto simp: handler_defs needs_consent_def prompt_outcome_def new_request_id_def
      new_request_def split: option.splits ext.splits)


theorem prompt_failure_is_thrown_witness:
  "isUnlocked unlocked \<and>
   needs_consent (env_connected\<lparr>storageSessionSet := Fails ''quota exceeded''\<rparr>) dapp
     SEND_TRANSACTION (Some tx_params) \<and>
   prompt_outcome (env_connected\<lparr>storageSessionSet := Fails ''quota exceeded''\<rparr>) =
     Fails ''quota exceeded'' \<and>
   snd (handleRPCRequest unlocked (env_connected\<lparr>storageSessionSet := Fails ''quota exceeded''\<rparr>)
          dapp SEND_TRANSACTION (Some tx_params)) = Throws (JSError ''quota exceeded'') \<and>
   pendingRequests (fst (handleRPCRequest unlocked
          (env_connected\<lparr>storageSessionSet := Fails ''quota exceeded''\<rparr>)
          dapp SEND_TRANSACTION (Some tx_params))) (tx_id T0) =
     Some \<lparr>request_id = tx_id T0, origin = dapp, rpc_method = SEND_TRANSACTION,
           params = tx_params, timestamp = T0 + 1\<rparr> \<and>
   approvalResolvers (fst (handleRPCRequest unlocked
          (env_connected\<lparr>storageSessionSet := Fails ''quota exceeded''\<rparr>)
          dapp SEND_TRANSACTION (Some tx_params))) = Map.empty"
proof -
  let ?e = "env_connected\<lparr>storageSessionSet := Fails ''quota exceeded''\<rparr>"
  have u: "isUnlocked unlocked" by (simp add: unlocked_def)
  have n: "needs_consent ?e dapp SEND_TRANSACTION (Some tx_params)"
    by (simp add: needs_consent_def example_defs)
  have f: "prompt_outcome ?e = Fails ''quota exceeded''"
    by (simp add: prompt_outcome_def)
  from prompt_failure_is_thrown [OF u n f] u n f show ?thesis
    by (simp add: new_request_id_def new_request_def example_defs)
qed

subsection \<open>Uniqueness of request ids\<close>

text \<open>
  Claim C6 says that two registrations whose entries are live together never get the same
  id, so that no registration overwrites another. The id is the method's prefix and the
  clock reading, and nothing looks the id up before it is used. A first
  \<^verbatim>\<open>request_accounts\<close> is pending, its caller waiting on promise 0. A second one, from
  another origin, arrives at the same clock reading; its caller waits on promise 1. It
  gets the same id: the pending entry now holds the second origin and the registry of
  waiters holds the second promise. When the timer of the first request fires, it finds
  a waiter under the id, removes it and rejects promise 0. When the timer of the second
  request fires, it finds no waiter: promise 1 is never settled, neither by its timeout
  nor by a later decision.
\<close>

theorem same_millisecond_registrations_collide:
  "snd (handleRPCRequest unlocked env0 dapp REQUEST_ACCOUNTS None) = Pending 0 \<and>
   now_id env0 = T0 \<and>
   map_option origin (pendingRequests connect_pending (connect_id T0)) = Some dapp \<and>
   approvalResolvers connect_pending (connect_id T0) = Some 0 \<and>
   snd (handleRPCRequest connect_pending env0 other_dapp REQUEST_ACCOUNTS None) = Pending 1 \<and>
   map_option origin (pendingRequests connect_twice (connect_id T0)) = Some other_dapp \<and>
   approvalResolvers connect_twice (connect_id T0) = Some 1 \<and>
   dom (pendingRequests connect_twice) = {connect_id T0} \<and>
   settlements (fire 2 connect_twice) =
     [(0, Rejected (RPCErr \<lparr>code = USER_REJECTED, message = ''Request timeout''\<rparr>))] \<and>
   approvalResolvers (fire 2 connect_twice) (connect_id T0) = None \<and>
   settlements (fire 4 (fire 2 connect_twice)) =
     [(0, Rejected (RPCErr \<lparr>code = USER_REJECTED, message = ''Request timeout''\<rparr>))] \<and>
   timers (fire 4 (fire 2 connect_twice)) 4 = None \<and>
   settlements
     (fst (handleConnectionApproval (fire 4 (fire 2 connect_twice)) env0 (connect_id T0) True)) =
     [(0, Rejected (RPCErr \<lparr>code = USER_REJECTED, message = ''Request timeout''\<rparr>))]"
proof -
  have f2: "fire 2 connect_twice =
      connect_twice\<lparr>timers := (timers connect_twice)(2 := None),
        approvalResolvers := Map.empty,
        settlements := [(0, Rejected (RPCErr \<lparr>code = USER_REJECTED, message = ''Request timeout''\<rparr>))]\<rparr>"
    by (simp add: connect_twice_eq fire_def approvalTimeout_def createRPCError_def)
  have f4: "fire 4 (fire 2 connect_twice) =
      connect_twice\<lparr>timers := (timers connect_twice)(2 := None, 4 := None),
        approvalResolvers := Map.empty,
        settlements := [(0, Rejected (RPCErr \<lparr>code = USER_REJECTED, message = ''Request timeout''\<rparr>))]\<rparr>"
    by (simp add: f2) (simp add: connect_twice_eq fire_def approvalTimeout_def)
  have "snd (handleRPCRequest unlocked env0 dapp REQUEST_ACCOUNTS None) = Pending 0"
    by (simp add: handler_defs example_defs)
  moreover have "now_id env0 = T0"
    by (simp add: env0_def)
  moreover have "map_option origin (pendingRequests connect_pending (connect_id T0)) = Some dapp"
    by (simp add: connect_pending_eq)
  moreover have "approvalResolvers connect_pending (connect_id T0) = Some 0"
    by (simp add: connect_pending_eq)
  moreover have
    "snd (handleRPCRequest connect_pending env0 other_dapp REQUEST_ACCOUNTS None) = Pending 1"
    by (simp add: connect_pending_eq) (simp add: handler_defs env0_def)
  moreover have
    "map_option origin (pendingRequests connect_twice (connect_id T0)) = Some other_dapp"
    by (simp add: connect_twice_eq)
  moreover have "approvalResolvers connect_twice (connect_id T0) = Some 1"
    by (simp add: connect_twice_eq)
  moreover have "dom (pendingRequests connect_twice) = {connect_id T0}"
    by (simp add: connect_twice_eq)
  moreover have "settlements (fire 2 connect_twice) = [(0, Rejected (RPCErr \<lparr>code = USER_REJECTED, message = ''Request timeout''\<rparr>))]"
    by (simp add: f2)
  moreover have "approvalResolvers (fire 2 connect_twice) (connect_id T0) = None"
    by (simp add: f2)
  moreover have "settlements (fire 4 (fire 2 connect_twice)) = [(0, Rejected (RPCErr \<lparr>code = USER_REJECTED, message = ''Request timeout''\<rparr>))]"
    by (simp add: f4)
  moreover have "timers (fire 4 (fire 2 connect_twice)) 4 = None"
    by (simp add: f4)
  moreover have "settlements
      (fst (handleConnectionApproval (fire 4 (fire 2 connect_twice)) env0 (connect_id T0) True)) =
      [(0, Rejected (RPCErr \<lparr>code = USER_REJECTED, message = ''Request timeout''\<rparr>))]"
    by (simp add: f4)
      (simp add: connect_twice_eq handleConnectionApproval_def resolveApproval_def called_def)
  ultimately show ?thesis
    by (intro conjI)
qed

subsection \<open>Timeout of a pending request\<close>

text \<open>
  Claim C2 says that after the timeout the caller has been rejected with "Request
  timeout" and the pending request has left the registry. A transaction request is
  registered (its caller waits on promise 0) and its timer fires with no decision in
  between: the promise is rejected with the RPC error of code \<open>USER_REJECTED\<close> and message
  "Request timeout", the waiter is removed, and the pending request is still registered.
  The timer's body deletes from \<^verbatim>\<open>approvalResolvers\<close> only, where the two decision handlers
  also delete from \<^verbatim>\<open>pendingRequests\<close>.
\<close>

theorem timeout_leaves_pending_request:
  "snd (handleRPCRequest unlocked env_connected dapp SEND_TRANSACTION (Some tx_params)) = Pending 0 \<and>
   settlements (fire 2 tx_pending) =
     [(0, Rejected (RPCErr \<lparr>code = USER_REJECTED, message = ''Request timeout''\<rparr>))] \<and>
   approvalResolvers (fire 2 tx_pending) (tx_id T0) = None \<and>
   pendingRequests (fire 2 tx_pending) (tx_id T0) =
     Some \<lparr>request_id = tx_id T0, origin = dapp, rpc_method = SEND_TRANSACTION,
           params = tx_params, timestamp = T0 + 1\<rparr>"
proof -
  have "snd (handleRPCRequest unlocked env_connected dapp SEND_TRANSACTION (Some tx_params)) = Pending 0"
    by (simp add: handler_defs example_defs)
  moreover have "timers tx_pending 2 = Some (ApprovalTimer (tx_id T0) 0, APPROVAL_TIMEOUT_MS)"
    and "approvalResolvers tx_pending (tx_id T0) = Some 0"
    by (simp_all add: tx_pending_eq)
  note approval_timer_fires [OF this]
  ultimately show ?thesis by (simp add: tx_pending_eq)
qed

text \<open>
  Claim C1 says that after any sequence of approvals, rejections and timeouts on one id
  exactly one settlement has reached the caller and the pending entry is absent. For the
  sequence that consists of the timeout alone, on a pending connection request, the
  caller is settled once and the pending entry is still registered.
\<close>

theorem timeout_alone_keeps_registry_entry:
  "races_on (connect_id T0) 2 (Fire 2) \<and>
   settlements (run connect_pending [Fire 2]) =
     [(0, Rejected (RPCErr \<lparr>code = USER_REJECTED, message = ''Request timeout''\<rparr>))] \<and>
   approvalResolvers (run connect_pending [Fire 2]) (connect_id T0) = None \<and>
   pendingRequests (run connect_pending [Fire 2]) (connect_id T0) =
     Some \<lparr>request_id = connect_id T0, origin = dapp, rpc_method = REQUEST_ACCOUNTS,
           params = empty_params, timestamp = T0 + 1\<rparr>"
  by (simp add: run_def connect_timed_out_eq)

end
